theory Spec2Isabelle
  imports Complex_Main "HOL-Library.Option_ord" "HOL-Library.Multiset"
begin

section \<open>Numbers and strings of the hooks\<close>

text \<open>
  The finance hooks of the dashboard (\<^verbatim>\<open>src/hooks/useFinanceData.ts\<close>) compute with
  JavaScript numbers and strings. Numbers are modelled as reals and sums are exact;
  infinities and \<^verbatim>\<open>NaN\<close> are outside the model. The two products by the constants
  \<^verbatim>\<open>0.3\<close> and \<^verbatim>\<open>0.7\<close> are rounded as binary64 rounds them, since an equation between
  the buckets depends on it. A string is the list of its UTF-16 code units, as
  \<^verbatim>\<open>String.prototype.includes\<close> and \<^verbatim>\<open>toLowerCase\<close> see it.
\<close>

type_synonym jstring = "nat list"

definition utf16 :: "string \<Rightarrow> jstring" where
  \<comment> \<open>The code units of an ASCII literal.\<close>
  "utf16 s = map of_char s"

fun startsWith :: "jstring \<Rightarrow> jstring \<Rightarrow> bool" where
  "startsWith s [] = True"
| "startsWith [] (k # ks) = False"
| "startsWith (c # cs) (k # ks) = (c = k \<and> startsWith cs ks)"

fun js_includes :: "jstring \<Rightarrow> jstring \<Rightarrow> bool" where
  \<comment> \<open>\<^verbatim>\<open>s.includes(k)\<close>: \<open>k\<close> occurs in \<open>s\<close> as a contiguous run of code units.\<close>
  "js_includes [] k = startsWith [] k"
| "js_includes (c # cs) k = (startsWith (c # cs) k \<or> js_includes cs k)"

definition lowerUnit :: "nat \<Rightarrow> nat" where
  \<comment> \<open>Lower-casing of one code unit, for the Basic Latin letters \<^verbatim>\<open>A-Z\<close> and the
      Cyrillic capitals \<^verbatim>\<open>U+0400..U+042F\<close>; every other code unit is left as it is.\<close>
  "lowerUnit c =
     (if 0x41 \<le> c \<and> c \<le> 0x5A then c + 0x20
      else if 0x410 \<le> c \<and> c \<le> 0x42F then c + 0x20
      else if 0x400 \<le> c \<and> c \<le> 0x40F then c + 0x50
      else c)"

definition toLowerCase :: "jstring \<Rightarrow> jstring" where
  "toLowerCase s = map lowerUnit s"

definition js_or :: "real \<Rightarrow> real \<Rightarrow> real" where
  \<comment> \<open>\<^verbatim>\<open>x || d\<close> on numbers: \<open>0\<close> is the falsy number of the model.\<close>
  "js_or x d = (if x = 0 then d else x)"

definition toNumber :: "real option \<Rightarrow> real" where
  \<comment> \<open>Modelled from the spec: \<^verbatim>\<open>toNumber\<close> of \<^verbatim>\<open>lib/format\<close> is not among the sources;
      "numeric coercion of any null/missing/non-numeric field defaults to 0". A field is
      \<open>None\<close> when it is absent, null or not numeric.\<close>
  "toNumber v = (case v of None \<Rightarrow> 0 | Some x \<Rightarrow> x)"

subsection \<open>Products of doubles\<close>

text \<open>
  Rounding to the nearest binary64 number, ties to the even significand, for values in the
  normal range (no overflow to infinity, no subnormal numbers): \<open>exponent x\<close> is the
  \<open>e\<close> with \<open>2 ^ e \<le> \<bar>x\<bar> < 2 ^ (e + 1)\<close>, and the result is the multiple of
  \<open>2 ^ (e - 52)\<close> nearest to \<open>x\<close>.
\<close>

fun bit_length :: "nat \<Rightarrow> nat" where
  "bit_length n = (if n = 0 then 0 else Suc (bit_length (n div 2)))"

definition pow2 :: "int \<Rightarrow> real" where
  "pow2 e = (if 0 \<le> e then 2 ^ nat e else 1 / 2 ^ nat (- e))"

definition exponent :: "real \<Rightarrow> int" where
  "exponent x =
     (if 1 \<le> \<bar>x\<bar> then int (bit_length (nat \<lfloor>\<bar>x\<bar>\<rfloor>)) - 1
      else - int (bit_length (nat (\<lceil>1 / \<bar>x\<bar>\<rceil> - 1))))"

definition round_half_even :: "real \<Rightarrow> int" where
  "round_half_even x =
     (if x - of_int \<lfloor>x\<rfloor> < 1 / 2 then \<lfloor>x\<rfloor>
      else if 1 / 2 < x - of_int \<lfloor>x\<rfloor> then \<lfloor>x\<rfloor> + 1
      else if even \<lfloor>x\<rfloor> then \<lfloor>x\<rfloor>
      else \<lfloor>x\<rfloor> + 1)"

definition fl64 :: "real \<Rightarrow> real" where
  "fl64 x =
     (if x = 0 then 0
      else of_int (round_half_even (x / pow2 (exponent x - 52))) * pow2 (exponent x - 52))"

definition double_0_3 :: real where
  \<comment> \<open>The double the literal \<^verbatim>\<open>0.3\<close> denotes, \<^verbatim>\<open>0x3FD3333333333333\<close>.\<close>
  "double_0_3 = 5404319552844595 / 2 ^ 54"

definition double_0_7 :: real where
  \<comment> \<open>The double the literal \<^verbatim>\<open>0.7\<close> denotes, \<^verbatim>\<open>0x3FE6666666666666\<close>.\<close>
  "double_0_7 = 3152519739159347 / 2 ^ 52"

subsection \<open>The keyword literals\<close>

text \<open>The Cyrillic literals of the source, by code unit; the name after each is its
  transliteration.\<close>

definition kw_prodazh :: jstring where
  "kw_prodazh = [0x43F, 0x440, 0x43E, 0x434, 0x430, 0x436]"
definition kw_oplat :: jstring where
  "kw_oplat = [0x43E, 0x43F, 0x43B, 0x430, 0x442]"
definition kw_komiss :: jstring where
  "kw_komiss = [0x43A, 0x43E, 0x43C, 0x438, 0x441, 0x441]"
definition kw_sbor :: jstring where
  "kw_sbor = [0x441, 0x431, 0x43E, 0x440]"
definition kw_dostavk :: jstring where
  "kw_dostavk = [0x434, 0x43E, 0x441, 0x442, 0x430, 0x432, 0x43A]"
definition kw_logistik :: jstring where
  "kw_logistik = [0x43B, 0x43E, 0x433, 0x438, 0x441, 0x442, 0x438, 0x43A]"
definition kw_vozvrat :: jstring where
  "kw_vozvrat = [0x432, 0x43E, 0x437, 0x432, 0x440, 0x430, 0x442]"
definition kw_otmen :: jstring where
  "kw_otmen = [0x43E, 0x442, 0x43C, 0x435, 0x43D]"
definition kw_reklam :: jstring where
  "kw_reklam = [0x440, 0x435, 0x43A, 0x43B, 0x430, 0x43C]"
definition kw_prodvizh :: jstring where
  "kw_prodvizh = [0x43F, 0x440, 0x43E, 0x434, 0x432, 0x438, 0x436]"
definition kw_uslug :: jstring where
  "kw_uslug = [0x443, 0x441, 0x43B, 0x443, 0x433]"
definition kw_obsluzh :: jstring where
  "kw_obsluzh = [0x43E, 0x431, 0x441, 0x43B, 0x443, 0x436]"

section \<open>Data model\<close>

text \<open>A row of \<^verbatim>\<open>vw_transaction_details\<close>; every field may be absent or null.\<close>

record RawRecord =
  accruals_for_sale :: "real option"
  sale_commission :: "real option"
  delivery_charge :: "real option"
  return_delivery_charge :: "real option"
  item_amount :: "real option"  \<comment> \<open>the field \<^verbatim>\<open>amount\<close>\<close>
  operation_type_name :: "jstring option"
  operation_date_msk :: "nat option"  \<comment> \<open>a calendar day, by its number\<close>
  posting_number :: "jstring option"

definition emptyRecord :: RawRecord where
  \<comment> \<open>The row \<^verbatim>\<open>{}\<close>, every field absent.\<close>
  "emptyRecord = \<lparr>accruals_for_sale = None, sale_commission = None, delivery_charge = None,
     return_delivery_charge = None, item_amount = None, operation_type_name = None,
     operation_date_msk = None, posting_number = None\<rparr>"

record FinanceSummary =
  sales :: real
  commissions :: real
  delivery :: real
  returns :: real
  ads :: real
  services :: real
  totalIncome :: real
  totalExpenses :: real
  netProfit :: real

record FinanceCategory =
  category :: jstring
  amount :: real
  percentage :: real
  color :: string

text \<open>The keys of a summary object, in the order the object literal lists them.\<close>

datatype summary_key =
  K_sales | K_commissions | K_delivery | K_returns | K_ads | K_services
  | K_totalIncome | K_totalExpenses | K_netProfit

definition CATEGORY_COLORS :: "summary_key \<Rightarrow> string option" where
  "CATEGORY_COLORS k =
     (case k of K_sales \<Rightarrow> Some ''#10b981'' | K_commissions \<Rightarrow> Some ''#ef4444''
      | K_delivery \<Rightarrow> Some ''#f59e0b'' | K_returns \<Rightarrow> Some ''#8b5cf6''
      | K_ads \<Rightarrow> Some ''#06b6d4'' | K_services \<Rightarrow> Some ''#84cc16'' | _ \<Rightarrow> None)"

definition CATEGORY_LABELS :: "summary_key \<Rightarrow> jstring option" where
  "CATEGORY_LABELS k =
     (case k of
        K_sales \<Rightarrow> Some [0x41F, 0x440, 0x43E, 0x434, 0x430, 0x436, 0x438]
      | K_commissions \<Rightarrow> Some [0x41A, 0x43E, 0x43C, 0x438, 0x441, 0x441, 0x438, 0x438]
      | K_delivery \<Rightarrow> Some [0x414, 0x43E, 0x441, 0x442, 0x430, 0x432, 0x43A, 0x430]
      | K_returns \<Rightarrow> Some [0x412, 0x43E, 0x437, 0x432, 0x440, 0x430, 0x442, 0x44B]
      | K_ads \<Rightarrow> Some [0x420, 0x435, 0x43A, 0x43B, 0x430, 0x43C, 0x430]
      | K_services \<Rightarrow> Some [0x423, 0x441, 0x43B, 0x443, 0x433, 0x438]
      | _ \<Rightarrow> None)"

definition Object_entries :: "FinanceSummary \<Rightarrow> (summary_key \<times> real) list" where
  "Object_entries s =
     [(K_sales, sales s), (K_commissions, commissions s), (K_delivery, delivery s),
      (K_returns, returns s), (K_ads, ads s), (K_services, services s),
      (K_totalIncome, totalIncome s), (K_totalExpenses, totalExpenses s),
      (K_netProfit, netProfit s)]"

section \<open>Tier 3: the summary from raw transaction rows\<close>

text \<open>The six running totals of the loop over the rows.\<close>

record totals =
  totalSales :: real
  totalCommissions :: real
  totalDelivery :: real
  totalReturns :: real
  totalAds :: real
  totalServices :: real

definition zeroTotals :: totals where
  "zeroTotals = \<lparr>totalSales = 0, totalCommissions = 0, totalDelivery = 0, totalReturns = 0,
     totalAds = 0, totalServices = 0\<rparr>"

text \<open>The constants the loop body binds for one row.\<close>

record locals =
  accrualsForSale :: real
  saleCommission :: real
  deliveryCharge :: real
  returnDeliveryCharge :: real
  amountAbs :: real  \<comment> \<open>the constant \<^verbatim>\<open>amount\<close>\<close>
  operationType :: jstring

definition bind_locals :: "RawRecord \<Rightarrow> locals" where
  "bind_locals item =
     \<lparr>accrualsForSale = js_or (toNumber (accruals_for_sale item)) 0,
      saleCommission = js_or \<bar>toNumber (sale_commission item)\<bar> 0,
      deliveryCharge = js_or \<bar>toNumber (delivery_charge item)\<bar> 0,
      returnDeliveryCharge = js_or \<bar>toNumber (return_delivery_charge item)\<bar> 0,
      amountAbs = js_or \<bar>toNumber (item_amount item)\<bar> 0,
      operationType = (case operation_type_name item of None \<Rightarrow> []
                       | Some n \<Rightarrow> (if toLowerCase n = [] then [] else toLowerCase n))\<rparr>"

definition sales_step :: "locals \<Rightarrow> totals \<Rightarrow> totals" where
  "sales_step l t =
     (if accrualsForSale l > 0 then t\<lparr>totalSales := totalSales t + accrualsForSale l\<rparr>
      else if js_includes (operationType l) kw_prodazh \<or> js_includes (operationType l) (utf16 ''sale'')
            \<or> js_includes (operationType l) kw_oplat \<or> js_includes (operationType l) (utf16 ''payment'')
      then t\<lparr>totalSales := totalSales t + amountAbs l\<rparr>
      else t)"

definition commissions_step :: "locals \<Rightarrow> totals \<Rightarrow> totals" where
  "commissions_step l t =
     (if saleCommission l > 0 then t\<lparr>totalCommissions := totalCommissions t + saleCommission l\<rparr>
      else if js_includes (operationType l) kw_komiss \<or> js_includes (operationType l) (utf16 ''commission'')
            \<or> js_includes (operationType l) kw_sbor \<or> js_includes (operationType l) (utf16 ''fee'')
      then t\<lparr>totalCommissions := totalCommissions t + amountAbs l\<rparr>
      else t)"

definition delivery_step :: "locals \<Rightarrow> totals \<Rightarrow> totals" where
  "delivery_step l t =
     (if deliveryCharge l > 0 then t\<lparr>totalDelivery := totalDelivery t + deliveryCharge l\<rparr>
      else if js_includes (operationType l) kw_dostavk \<or> js_includes (operationType l) (utf16 ''delivery'')
            \<or> js_includes (operationType l) kw_logistik \<or> js_includes (operationType l) (utf16 ''shipping'')
      then t\<lparr>totalDelivery := totalDelivery t + amountAbs l\<rparr>
      else t)"

definition returns_step :: "locals \<Rightarrow> totals \<Rightarrow> totals" where
  "returns_step l t =
     (if returnDeliveryCharge l > 0
      then t\<lparr>totalReturns := totalReturns t + returnDeliveryCharge l\<rparr>
      else if js_includes (operationType l) kw_vozvrat \<or> js_includes (operationType l) (utf16 ''return'')
            \<or> js_includes (operationType l) kw_otmen \<or> js_includes (operationType l) (utf16 ''cancel'')
      then t\<lparr>totalReturns := totalReturns t + amountAbs l\<rparr>
      else t)"

definition ads_step :: "locals \<Rightarrow> totals \<Rightarrow> totals" where
  "ads_step l t =
     (if js_includes (operationType l) kw_reklam \<or> js_includes (operationType l) (utf16 ''ads'')
         \<or> js_includes (operationType l) kw_prodvizh \<or> js_includes (operationType l) (utf16 ''promotion'')
      then t\<lparr>totalAds := totalAds t + amountAbs l\<rparr>
      else t)"

definition services_step :: "locals \<Rightarrow> totals \<Rightarrow> totals" where
  "services_step l t =
     (if js_includes (operationType l) kw_uslug \<or> js_includes (operationType l) (utf16 ''service'')
         \<or> js_includes (operationType l) kw_obsluzh \<or> js_includes (operationType l) (utf16 ''processing'')
      then (if \<not> js_includes (operationType l) kw_dostavk
               \<and> \<not> js_includes (operationType l) (utf16 ''delivery'')
            then t\<lparr>totalServices := totalServices t + amountAbs l\<rparr>
            else t)
      else t)"

definition catch_all_step :: "locals \<Rightarrow> totals \<Rightarrow> totals" where
  "catch_all_step l t =
     (if amountAbs l > 0 \<and> accrualsForSale l = 0 \<and> saleCommission l = 0
         \<and> deliveryCharge l = 0 \<and> returnDeliveryCharge l = 0
         \<and> \<not> js_includes (operationType l) kw_prodazh \<and> \<not> js_includes (operationType l) (utf16 ''sale'')
         \<and> \<not> js_includes (operationType l) kw_komiss
         \<and> \<not> js_includes (operationType l) (utf16 ''commission'')
         \<and> \<not> js_includes (operationType l) kw_dostavk
         \<and> \<not> js_includes (operationType l) (utf16 ''delivery'')
         \<and> \<not> js_includes (operationType l) kw_vozvrat \<and> \<not> js_includes (operationType l) (utf16 ''return'')
         \<and> \<not> js_includes (operationType l) kw_reklam \<and> \<not> js_includes (operationType l) (utf16 ''ads'')
      then t\<lparr>totalServices := totalServices t + amountAbs l\<rparr>
      else t)"

definition forEach_item :: "totals \<Rightarrow> RawRecord \<Rightarrow> totals" where
  \<comment> \<open>One run of the loop body: the seven statements in the order of the source.\<close>
  "forEach_item t item =
     (let l = bind_locals item in
      catch_all_step l (services_step l (ads_step l (returns_step l
        (delivery_step l (commissions_step l (sales_step l t)))))))"

definition categorize :: "RawRecord list \<Rightarrow> totals" where
  "categorize transactionData = foldl forEach_item zeroTotals transactionData"

definition demo_substitution :: "totals \<Rightarrow> totals" where
  \<comment> \<open>"Ensure minimum values for demonstration if all categories are zero".\<close>
  "demo_substitution t =
     (if totalSales t = 0 \<and> totalCommissions t = 0 \<and> totalDelivery t = 0
         \<and> totalReturns t = 0 \<and> totalAds t = 0 \<and> totalServices t = 0
      then \<lparr>totalSales = 10000, totalCommissions = 1500, totalDelivery = 800,
             totalReturns = 200, totalAds = 300, totalServices = 500\<rparr>
      else t)"

definition tier3_summary :: "totals \<Rightarrow> FinanceSummary" where
  "tier3_summary t =
     \<lparr>sales = totalSales t, commissions = totalCommissions t, delivery = totalDelivery t,
      returns = totalReturns t, ads = totalAds t, services = totalServices t,
      totalIncome = totalSales t,
      totalExpenses = totalCommissions t + totalDelivery t + totalReturns t + totalAds t
                      + totalServices t,
      netProfit = totalSales t - (totalCommissions t + totalDelivery t + totalReturns t
                      + totalAds t + totalServices t)\<rparr>"

section \<open>The category list of the pie chart\<close>

definition push_category ::
  "real \<Rightarrow> FinanceCategory list \<Rightarrow> summary_key \<times> real \<Rightarrow> FinanceCategory list" where
  \<comment> \<open>The callback of \<^verbatim>\<open>Object.entries(summary).forEach\<close>; \<open>key in CATEGORY_COLORS\<close> holds
      for the six category keys, which are the keys of \<^verbatim>\<open>CATEGORY_LABELS\<close> too.\<close>
  "push_category tot cats e =
     (case e of (key, v) \<Rightarrow>
        (case (CATEGORY_COLORS key, CATEGORY_LABELS key) of
           (Some c, Some lbl) \<Rightarrow>
             (if v \<noteq> 0
              then (let a = (if key = K_sales then v else \<bar>v\<bar>) in
                    cats @ [\<lparr>category = lbl, amount = a,
                       percentage = (if tot > 0 then (a / tot) * 100 else 0),
                       color = c\<rparr>])
              else cats)
         | _ \<Rightarrow> cats))"

definition build_categories :: "FinanceSummary \<Rightarrow> FinanceCategory list" where
  "build_categories s =
     foldl (push_category (totalIncome s + totalExpenses s)) [] (Object_entries s)"

definition sort_by_amount_desc :: "FinanceCategory list \<Rightarrow> FinanceCategory list" where
  \<comment> \<open>\<^verbatim>\<open>categories.sort((a, b) => b.amount - a.amount)\<close>; \<^verbatim>\<open>Array.prototype.sort\<close> is
      stable, and so is insertion by key.\<close>
  "sort_by_amount_desc cs = sort_key (\<lambda>c. - amount c) cs"

record finance_result =
  summary :: FinanceSummary
  categories :: "FinanceCategory list"

definition tier3 :: "RawRecord list \<Rightarrow> finance_result" where
  "tier3 transactionData =
     (let s = tier3_summary (demo_substitution (categorize transactionData)) in
      \<lparr>summary = s, categories = sort_by_amount_desc (build_categories s)\<rparr>)"

section \<open>Tier 1 and tier 2: summaries computed by the backend\<close>

text \<open>A row of the \<^verbatim>\<open>dashboard_summary\<close> view.\<close>

record SummaryRow =
  total_revenue :: "real option"
  total_commission :: "real option"
  total_service_costs :: "real option"
  total_payout :: "real option"

definition reduce_sum :: "('r \<Rightarrow> real option) \<Rightarrow> 'r list option \<Rightarrow> real" where
  \<comment> \<open>\<^verbatim>\<open>summaryData?.reduce((sum, item) => sum + toNumber(item.f), 0) || 0\<close>\<close>
  "reduce_sum f summaryData =
     (case summaryData of None \<Rightarrow> 0
      | Some rows \<Rightarrow> js_or (foldl (\<lambda>sum item. sum + toNumber (f item)) 0 rows) 0)"

definition tier1_summary :: "SummaryRow list option \<Rightarrow> FinanceSummary" where
  "tier1_summary summaryData =
     (let totalRevenue = reduce_sum total_revenue summaryData;
          totalCommissions = reduce_sum total_commission summaryData;
          totalServiceCosts = reduce_sum total_service_costs summaryData;
          totalPayout = reduce_sum total_payout summaryData
      in \<lparr>sales = totalRevenue, commissions = totalCommissions,
           delivery = fl64 (totalServiceCosts * double_0_3), returns = 0, ads = 0,
           services = fl64 (totalServiceCosts * double_0_7), totalIncome = totalRevenue,
           totalExpenses = totalCommissions + totalServiceCosts, netProfit = totalPayout\<rparr>)"

definition tier1 :: "SummaryRow list option \<Rightarrow> finance_result" where
  "tier1 summaryData =
     (let s = tier1_summary summaryData in
      \<lparr>summary = s, categories = sort_by_amount_desc (build_categories s)\<rparr>)"

text \<open>The row the remote procedure \<^verbatim>\<open>get_finance_summary\<close> answers with.\<close>

record RpcRow =
  total_sales :: "real option"
  total_commissions :: "real option"
  total_delivery :: "real option"
  total_returns :: "real option"
  total_ads :: "real option"
  total_services :: "real option"
  total_income :: "real option"
  total_expenses :: "real option"
  net_profit :: "real option"

definition emptyRpcRow :: RpcRow where
  "emptyRpcRow = \<lparr>total_sales = None, total_commissions = None, total_delivery = None,
     total_returns = None, total_ads = None, total_services = None, total_income = None,
     total_expenses = None, net_profit = None\<rparr>"

definition first_row :: "RpcRow list option \<Rightarrow> RpcRow" where
  \<comment> \<open>\<^verbatim>\<open>data?.[0] || {}\<close>\<close>
  "first_row d = (case d of Some (r # rs) \<Rightarrow> r | _ \<Rightarrow> emptyRpcRow)"

definition tier2 :: "RpcRow list option \<Rightarrow> finance_result" where
  "tier2 d =
     (let result = first_row d in
      \<lparr>summary =
         \<lparr>sales = js_or (toNumber (total_sales result)) 0,
          commissions = js_or (toNumber (total_commissions result)) 0,
          delivery = js_or (toNumber (total_delivery result)) 0,
          returns = js_or (toNumber (total_returns result)) 0,
          ads = js_or (toNumber (total_ads result)) 0,
          services = js_or (toNumber (total_services result)) 0,
          totalIncome = js_or (toNumber (total_income result)) 0,
          totalExpenses = js_or (toNumber (total_expenses result)) 0,
          netProfit = js_or (toNumber (net_profit result)) 0\<rparr>,
       categories = []\<rparr>)"

section \<open>The tier chain of \<^verbatim>\<open>useFinanceData\<close>\<close>

text \<open>
  A call of the backend client answers \<^verbatim>\<open>{data, error}\<close>. The three answers the backend
  would give for the current filters are the input of the query function; the function
  returns the calls it awaited, in order, with its outcome: \<open>Inl\<close> is the error it throws.
\<close>

datatype PostgrestError = PostgrestError string

record 'a response =
  data :: "'a option"
  error :: "PostgrestError option"

record backend =
  dashboard_summary :: "SummaryRow list response"
  get_finance_summary :: "RpcRow list response"
  vw_transaction_details :: "RawRecord list response"

datatype tier = Tier1 | Tier2 | Tier3

definition rows_or_empty :: "'r list option \<Rightarrow> 'r list" where
  \<comment> \<open>\<^verbatim>\<open>data || []\<close>\<close>
  "rows_or_empty d = (case d of None \<Rightarrow> [] | Some rows \<Rightarrow> rows)"

definition tier3_attempt :: "backend \<Rightarrow> tier list \<times> (PostgrestError + finance_result)" where
  "tier3_attempt b =
     (case error (vw_transaction_details b) of
        Some transactionError \<Rightarrow> ([Tier3], Inl transactionError)
      | None \<Rightarrow> ([Tier3], Inr (tier3 (rows_or_empty (data (vw_transaction_details b))))))"

definition tier2_attempt :: "backend \<Rightarrow> tier list \<times> (PostgrestError + finance_result)" where
  \<comment> \<open>The inner \<^verbatim>\<open>try\<close>: the error of the procedure is thrown and caught at once.\<close>
  "tier2_attempt b =
     (case error (get_finance_summary b) of
        Some rpcError \<Rightarrow> (case tier3_attempt b of (calls, r) \<Rightarrow> (Tier2 # calls, r))
      | None \<Rightarrow> ([Tier2], Inr (tier2 (data (get_finance_summary b)))))"

definition queryFn :: "backend \<Rightarrow> tier list \<times> (PostgrestError + finance_result)" where
  "queryFn b =
     (case error (dashboard_summary b) of
        Some summaryError \<Rightarrow> (case tier2_attempt b of (calls, r) \<Rightarrow> (Tier1 # calls, r))
      | None \<Rightarrow> ([Tier1], Inr (tier1 (data (dashboard_summary b)))))"

section \<open>The breakdown rows of \<^verbatim>\<open>useFinanceBreakdown\<close>\<close>

record BreakdownRow =
  row_date_msk :: nat
  row_posting_number :: jstring
  row_sales :: real
  row_commissions :: real
  row_delivery :: real
  row_returns :: real
  row_ads :: real
  row_services :: real
  row_net_profit :: real
  row_operation_type :: "jstring option"

text \<open>
  The query \<^verbatim>\<open>.gte(d, from).lte(d, to).order(d, {ascending: false}).limit(100)\<close>, read
  over the rows of the table: a row without a date passes no comparison, descending order
  puts the latest day first, and the limit keeps the first hundred rows. Which of several
  rows of one day comes first is the database's choice; here it is the table's order.
\<close>

definition gte_lte :: "nat \<Rightarrow> nat \<Rightarrow> RawRecord list \<Rightarrow> RawRecord list" where
  "gte_lte dateFrom dateTo rows =
     filter (\<lambda>r. case operation_date_msk r of None \<Rightarrow> False
                 | Some d \<Rightarrow> dateFrom \<le> d \<and> d \<le> dateTo) rows"

definition order_desc :: "RawRecord list \<Rightarrow> RawRecord list" where
  "order_desc rows = sort_key (\<lambda>r. map_option (\<lambda>d. - int d) (operation_date_msk r)) rows"

definition limit :: "nat \<Rightarrow> 'r list \<Rightarrow> 'r list" where
  "limit n rows = take n rows"

definition na :: jstring where
  "na = utf16 ''N/A''"

definition breakdown_row :: "nat \<Rightarrow> RawRecord \<Rightarrow> BreakdownRow" where
  \<comment> \<open>The row mapping of \<^verbatim>\<open>hooks/useFinanceData.ts\<close>; \<open>today\<close> is
      \<^verbatim>\<open>formatMoscowDate(new Date())\<close>.\<close>
  "breakdown_row today item =
     \<lparr>row_date_msk = (case operation_date_msk item of None \<Rightarrow> today | Some d \<Rightarrow> d),
      row_posting_number = (case posting_number item of None \<Rightarrow> na
                            | Some p \<Rightarrow> (if p = [] then na else p)),
      row_sales = js_or (toNumber (accruals_for_sale item)) 0,
      row_commissions = js_or \<bar>toNumber (sale_commission item)\<bar> 0,
      row_delivery = js_or \<bar>toNumber (delivery_charge item)\<bar> 0,
      row_returns = js_or \<bar>toNumber (return_delivery_charge item)\<bar> 0,
      row_ads = 0,
      row_services = js_or \<bar>toNumber (item_amount item)\<bar> 0,
      row_net_profit = js_or (toNumber (item_amount item)) 0,
      row_operation_type = operation_type_name item\<rparr>"

definition useFinanceBreakdown ::
  "nat \<Rightarrow> nat \<Rightarrow> nat \<Rightarrow> PostgrestError + RawRecord list \<Rightarrow> PostgrestError + BreakdownRow list"
where
  \<comment> \<open>The table is \<open>Inl e\<close> when the query fails with \<open>e\<close>, which the hook throws.\<close>
  "useFinanceBreakdown today dateFrom dateTo tbl =
     (case tbl of Inl e \<Rightarrow> Inl e
      | Inr rows \<Rightarrow>
          Inr (map (breakdown_row today) (limit 100 (order_desc (gte_lte dateFrom dateTo rows)))))"

text \<open>
  The second copy of the hook among the sources reads the \<^verbatim>\<open>transactions\<close> table, whose
  date column is \<^verbatim>\<open>operation_date\<close> (here the field \<open>operation_date_msk\<close>), and decides
  between delivery and services by the operation type.
\<close>

definition delivery_tagged :: "RawRecord \<Rightarrow> bool" where
  \<comment> \<open>\<^verbatim>\<open>item.operation_type_name?.toLowerCase().includes('delivery')\<close>, as a condition\<close>
  "delivery_tagged item =
     (case operation_type_name item of None \<Rightarrow> False
      | Some n \<Rightarrow> js_includes (toLowerCase n) (utf16 ''delivery''))"

definition breakdown_row_transactions :: "RawRecord \<Rightarrow> BreakdownRow" where
  "breakdown_row_transactions item =
     \<lparr>row_date_msk = (case operation_date_msk item of None \<Rightarrow> 0 | Some d \<Rightarrow> d),
      row_posting_number = (case posting_number item of None \<Rightarrow> na
                            | Some p \<Rightarrow> (if p = [] then na else p)),
      row_sales = 0,
      row_commissions = 0,
      row_delivery = (if delivery_tagged item then \<bar>toNumber (item_amount item)\<bar> else 0),
      row_returns = 0,
      row_ads = 0,
      row_services = (if \<not> delivery_tagged item then \<bar>toNumber (item_amount item)\<bar> else 0),
      row_net_profit = js_or (toNumber (item_amount item)) 0,
      row_operation_type = operation_type_name item\<rparr>"

definition useFinanceBreakdown_transactions ::
  "nat \<Rightarrow> nat \<Rightarrow> PostgrestError + RawRecord list \<Rightarrow> PostgrestError + BreakdownRow list"
where
  "useFinanceBreakdown_transactions dateFrom dateTo tbl =
     (case tbl of Inl e \<Rightarrow> Inl e
      | Inr rows \<Rightarrow>
          Inr (map breakdown_row_transactions
                 (limit 100 (order_desc (gte_lte dateFrom dateTo rows)))))"

section \<open>Notions the properties are stated with\<close>

subsection \<open>What one row adds to the totals\<close>

definition plus_totals :: "totals \<Rightarrow> totals \<Rightarrow> totals" where
  "plus_totals a b =
     \<lparr>totalSales = totalSales a + totalSales b,
      totalCommissions = totalCommissions a + totalCommissions b,
      totalDelivery = totalDelivery a + totalDelivery b,
      totalReturns = totalReturns a + totalReturns b,
      totalAds = totalAds a + totalAds b,
      totalServices = totalServices a + totalServices b\<rparr>"

definition nonneg_totals :: "totals \<Rightarrow> bool" where
  "nonneg_totals t =
     (0 \<le> totalSales t \<and> 0 \<le> totalCommissions t \<and> 0 \<le> totalDelivery t
      \<and> 0 \<le> totalReturns t \<and> 0 \<le> totalAds t \<and> 0 \<le> totalServices t)"

definition nonneg_locals :: "locals \<Rightarrow> bool" where
  "nonneg_locals l =
     (0 \<le> saleCommission l \<and> 0 \<le> deliveryCharge l \<and> 0 \<le> returnDeliveryCharge l
      \<and> 0 \<le> amountAbs l)"

definition contribution :: "RawRecord \<Rightarrow> totals" where
  \<comment> \<open>What the loop body adds for one row, read off a run from zero.\<close>
  "contribution item = forEach_item zeroTotals item"

definition counted_in :: "RawRecord \<Rightarrow> summary_key list" where
  \<comment> \<open>The buckets a row is counted in: those its run of the loop body changes.\<close>
  "counted_in item =
     (let c = contribution item in
      (if totalSales c \<noteq> 0 then [K_sales] else [])
      @ (if totalCommissions c \<noteq> 0 then [K_commissions] else [])
      @ (if totalDelivery c \<noteq> 0 then [K_delivery] else [])
      @ (if totalReturns c \<noteq> 0 then [K_returns] else [])
      @ (if totalAds c \<noteq> 0 then [K_ads] else [])
      @ (if totalServices c \<noteq> 0 then [K_services] else []))"

text \<open>
  What the rule of a bucket gives for a row, read off the row itself: the structured field
  when it is positive, else the absolute amount when the lower-cased operation type has one
  of the words of the bucket, else nothing. The ads rule has words only. The services bucket
  has no entry here.
\<close>

definition lowered_type :: "RawRecord \<Rightarrow> jstring" where
  "lowered_type item =
     (case operation_type_name item of None \<Rightarrow> [] | Some n \<Rightarrow> toLowerCase n)"

definition mentions :: "RawRecord \<Rightarrow> jstring list \<Rightarrow> bool" where
  "mentions item kws = list_ex (js_includes (lowered_type item)) kws"

definition sales_keywords :: "jstring list" where
  "sales_keywords = [kw_prodazh, utf16 ''sale'', kw_oplat, utf16 ''payment'']"

definition commissions_keywords :: "jstring list" where
  "commissions_keywords = [kw_komiss, utf16 ''commission'', kw_sbor, utf16 ''fee'']"

definition delivery_keywords :: "jstring list" where
  "delivery_keywords = [kw_dostavk, utf16 ''delivery'', kw_logistik, utf16 ''shipping'']"

definition returns_keywords :: "jstring list" where
  "returns_keywords = [kw_vozvrat, utf16 ''return'', kw_otmen, utf16 ''cancel'']"

definition ads_keywords :: "jstring list" where
  "ads_keywords = [kw_reklam, utf16 ''ads'', kw_prodvizh, utf16 ''promotion'']"

definition field_else_text :: "real \<Rightarrow> jstring list \<Rightarrow> RawRecord \<Rightarrow> real" where
  "field_else_text v kws item =
     (if 0 < v then v
      else if mentions item kws then \<bar>toNumber (item_amount item)\<bar>
      else 0)"

definition rule_amount :: "summary_key \<Rightarrow> RawRecord \<Rightarrow> real" where
  "rule_amount k item =
     (case k of
        K_sales \<Rightarrow> field_else_text (toNumber (accruals_for_sale item)) sales_keywords item
      | K_commissions \<Rightarrow>
          field_else_text \<bar>toNumber (sale_commission item)\<bar> commissions_keywords item
      | K_delivery \<Rightarrow>
          field_else_text \<bar>toNumber (delivery_charge item)\<bar> delivery_keywords item
      | K_returns \<Rightarrow>
          field_else_text \<bar>toNumber (return_delivery_charge item)\<bar> returns_keywords item
      | K_ads \<Rightarrow> field_else_text 0 ads_keywords item
      | _ \<Rightarrow> 0)"

definition steps_sum :: "locals \<Rightarrow> totals" where
  "steps_sum l =
     plus_totals (sales_step l zeroTotals) (plus_totals (commissions_step l zeroTotals)
       (plus_totals (delivery_step l zeroTotals) (plus_totals (returns_step l zeroTotals)
         (plus_totals (ads_step l zeroTotals) (plus_totals (services_step l zeroTotals)
           (catch_all_step l zeroTotals))))))"

definition sale_with_commission :: RawRecord where
  \<comment> \<open>A row with both a sale accrual and its commission, as the transaction view has them.\<close>
  "sale_with_commission =
     emptyRecord\<lparr>accruals_for_sale := Some 1000, sale_commission := Some (- 150)\<rparr>"

definition shipping_service :: RawRecord where
  \<comment> \<open>\<^verbatim>\<open>{operation_type_name: "Shipping service", amount: 50}\<close>\<close>
  "shipping_service =
     emptyRecord\<lparr>operation_type_name := Some (utf16 ''Shipping service''),
                 item_amount := Some 50\<rparr>"

definition example_rows :: "RawRecord list" where
  \<comment> \<open>\<^verbatim>\<open>{accruals_for_sale: 1000}\<close>, \<^verbatim>\<open>{sale_commission: -150}\<close> and a row of type
      "Dostavka" (in Cyrillic, with its capital) and amount 80.\<close>
  "example_rows =
     [emptyRecord\<lparr>accruals_for_sale := Some 1000\<rparr>,
      emptyRecord\<lparr>sale_commission := Some (- 150)\<rparr>,
      emptyRecord\<lparr>operation_type_name :=
                    Some [0x414, 0x43E, 0x441, 0x442, 0x430, 0x432, 0x43A, 0x430],
                  item_amount := Some 80\<rparr>]"

subsection \<open>Summaries and category entries\<close>

definition summary_invariant :: "FinanceSummary \<Rightarrow> bool" where
  "summary_invariant s =
     (totalIncome s = sales s
      \<and> totalExpenses s = commissions s + delivery s + returns s + ads s + services s)"

definition zeroSummary :: FinanceSummary where
  "zeroSummary =
     \<lparr>sales = 0, commissions = 0, delivery = 0, returns = 0, ads = 0, services = 0,
      totalIncome = 0, totalExpenses = 0, netProfit = 0\<rparr>"

definition demoSummary :: FinanceSummary where
  "demoSummary =
     \<lparr>sales = 10000, commissions = 1500, delivery = 800, returns = 200, ads = 300,
      services = 500, totalIncome = 10000, totalExpenses = 3300, netProfit = 6700\<rparr>"

definition category_keys :: "summary_key list" where
  \<comment> \<open>The enumeration order of the categories.\<close>
  "category_keys = [K_sales, K_commissions, K_delivery, K_returns, K_ads, K_services]"

definition label :: "summary_key \<Rightarrow> jstring" where
  "label k = the (CATEGORY_LABELS k)"

definition bucket :: "FinanceSummary \<Rightarrow> summary_key \<Rightarrow> real" where
  \<comment> \<open>\<^verbatim>\<open>summary[key]\<close>\<close>
  "bucket s k =
     (case k of K_sales \<Rightarrow> sales s | K_commissions \<Rightarrow> commissions s
      | K_delivery \<Rightarrow> delivery s | K_returns \<Rightarrow> returns s | K_ads \<Rightarrow> ads s
      | K_services \<Rightarrow> services s | K_totalIncome \<Rightarrow> totalIncome s
      | K_totalExpenses \<Rightarrow> totalExpenses s | K_netProfit \<Rightarrow> netProfit s)"

definition entry_for :: "FinanceSummary \<Rightarrow> summary_key \<Rightarrow> FinanceCategory" where
  \<comment> \<open>The entry the hook builds for a category key.\<close>
  "entry_for s k =
     \<lparr>category = label k,
      amount = (if k = K_sales then bucket s k else \<bar>bucket s k\<bar>),
      percentage = (if totalIncome s + totalExpenses s > 0
                    then (if k = K_sales then bucket s k else \<bar>bucket s k\<bar>)
                         / (totalIncome s + totalExpenses s) * 100
                    else 0),
      color = the (CATEGORY_COLORS k)\<rparr>"

definition entry_spec :: "FinanceSummary \<Rightarrow> summary_key \<Rightarrow> FinanceCategory" where
  \<comment> \<open>The entry as the specification words it: the bucket itself as amount, and
      \<open>amount / (totalIncome + totalExpenses) * 100\<close> as percentage.\<close>
  "entry_spec s k =
     \<lparr>category = label k, amount = bucket s k,
      percentage = bucket s k / (totalIncome s + totalExpenses s) * 100,
      color = the (CATEGORY_COLORS k)\<rparr>"

fun index_of :: "'a \<Rightarrow> 'a list \<Rightarrow> nat" where
  "index_of x [] = 0"
| "index_of x (y # ys) = (if x = y then 0 else Suc (index_of x ys))"

definition enum_rank :: "jstring \<Rightarrow> nat" where
  \<comment> \<open>The place of a category label in the enumeration order.\<close>
  "enum_rank l = index_of l (map label category_keys)"

definition amount_then_enum :: "FinanceCategory \<Rightarrow> FinanceCategory \<Rightarrow> bool" where
  \<comment> \<open>\<open>a\<close> may stand before \<open>b\<close>: a larger amount, or the same amount and an earlier
      category.\<close>
  "amount_then_enum a b =
     (amount a > amount b
      \<or> (amount a = amount b \<and> enum_rank (category a) < enum_rank (category b)))"

definition lex_rel :: "('a \<Rightarrow> real) \<Rightarrow> ('a \<Rightarrow> 'a \<Rightarrow> bool) \<Rightarrow> 'a \<Rightarrow> 'a \<Rightarrow> bool" where
  "lex_rel f R a b = (f a < f b \<or> (f a = f b \<and> R a b))"

definition negative_commission_view :: "SummaryRow list option" where
  \<comment> \<open>A view that reports the commission with its sign, as the raw rows do.\<close>
  "negative_commission_view =
     Some [\<lparr>total_revenue = Some 100, total_commission = Some (- 150),
            total_service_costs = None, total_payout = Some (- 50)\<rparr>]"

subsection \<open>Backends\<close>

definition rpc_fields :: "RpcRow \<Rightarrow> FinanceSummary" where
  \<comment> \<open>The nine fields of a row of the procedure, as reported.\<close>
  "rpc_fields row =
     \<lparr>sales = toNumber (total_sales row), commissions = toNumber (total_commissions row),
      delivery = toNumber (total_delivery row), returns = toNumber (total_returns row),
      ads = toNumber (total_ads row), services = toNumber (total_services row),
      totalIncome = toNumber (total_income row),
      totalExpenses = toNumber (total_expenses row),
      netProfit = toNumber (net_profit row)\<rparr>"

definition failed :: "'a response" where
  "failed = \<lparr>data = None, error = Some (PostgrestError ''relation does not exist'')\<rparr>"

definition answered :: "'a \<Rightarrow> 'a response" where
  "answered d = \<lparr>data = Some d, error = None\<rparr>"

definition view_backend :: backend where
  \<comment> \<open>The view answers; sales and commissions tie at 100.\<close>
  "view_backend =
     \<lparr>dashboard_summary =
        answered [\<lparr>total_revenue = Some 100, total_commission = Some 100,
                   total_service_costs = Some 50, total_payout = Some (- 50)\<rparr>],
      get_finance_summary = failed, vw_transaction_details = failed\<rparr>"

definition sales_only_rpc :: backend where
  \<comment> \<open>No view; the procedure answers a row with \<^verbatim>\<open>total_sales\<close> alone.\<close>
  "sales_only_rpc =
     \<lparr>dashboard_summary = failed,
      get_finance_summary = answered [emptyRpcRow\<lparr>total_sales := Some 100\<rparr>],
      vw_transaction_details = failed\<rparr>"

definition rounding_view :: backend where
  \<comment> \<open>The view answers revenue 10, commission 1 and service costs 3.\<close>
  "rounding_view =
     \<lparr>dashboard_summary =
        answered [\<lparr>total_revenue = Some 10, total_commission = Some 1,
                   total_service_costs = Some 3, total_payout = Some 6\<rparr>],
      get_finance_summary = failed, vw_transaction_details = failed\<rparr>"

definition raw_backend :: backend where
  "raw_backend =
     \<lparr>dashboard_summary = failed, get_finance_summary = failed,
      vw_transaction_details = answered [emptyRecord\<lparr>accruals_for_sale := Some 1000\<rparr>]\<rparr>"

definition dead_backend :: backend where
  "dead_backend =
     \<lparr>dashboard_summary = failed, get_finance_summary = failed,
      vw_transaction_details = failed\<rparr>"

subsection \<open>Breakdown rows\<close>

definition later_first :: "RawRecord \<Rightarrow> RawRecord \<Rightarrow> bool" where
  \<comment> \<open>Both rows are dated and the first is not older than the second.\<close>
  "later_first r r' =
     (case (operation_date_msk r, operation_date_msk r') of
        (Some d, Some d') \<Rightarrow> d' \<le> d
      | _ \<Rightarrow> False)"

definition delivery_row :: RawRecord where
  \<comment> \<open>A delivery charge of 80 on day 5, with the type "Delivery".\<close>
  "delivery_row =
     emptyRecord\<lparr>operation_type_name := Some (utf16 ''Delivery''),
                 delivery_charge := Some (- 80), item_amount := Some (- 80),
                 operation_date_msk := Some 5\<rparr>"

definition other_row :: RawRecord where
  "other_row = emptyRecord\<lparr>item_amount := Some 40, operation_date_msk := Some 3\<rparr>"

definition late_row :: RawRecord where
  "late_row = emptyRecord\<lparr>item_amount := Some 7, operation_date_msk := Some 40\<rparr>"

section \<open>Evaluation of the model\<close>

lemmas kw_defs =
  kw_prodazh_def kw_oplat_def kw_komiss_def kw_sbor_def kw_dostavk_def kw_logistik_def
  kw_vozvrat_def kw_otmen_def kw_reklam_def kw_prodvizh_def kw_uslug_def kw_obsluzh_def

lemmas step_defs =
  sales_step_def commissions_step_def delivery_step_def returns_step_def ads_step_def
  services_step_def catch_all_step_def

lemmas eval_defs =
  forEach_item_def bind_locals_def emptyRecord_def zeroTotals_def step_defs toNumber_def
  js_or_def utf16_def kw_defs toLowerCase_def lowerUnit_def

lemmas cat_defs =
  build_categories_def Object_entries_def push_category_def CATEGORY_COLORS_def
  CATEGORY_LABELS_def

lemmas backend_defs =
  view_backend_def sales_only_rpc_def rounding_view_def raw_backend_def dead_backend_def
  failed_def answered_def

lemmas fl_defs =
  fl64_def round_half_even_def exponent_def pow2_def double_0_3_def double_0_7_def

lemmas rule_defs =
  rule_amount_def field_else_text_def mentions_def lowered_type_def sales_keywords_def
  commissions_keywords_def delivery_keywords_def returns_keywords_def ads_keywords_def

lemma js_or_zero [simp]: "js_or x 0 = x"
  by (simp add: js_or_def)

section \<open>The loop over the raw rows\<close>

lemma plus_totals_zero [simp]: "plus_totals t zeroTotals = t"
  by (simp add: plus_totals_def zeroTotals_def)

lemma plus_zero_left [simp]: "plus_totals zeroTotals t = t"
  by (simp add: plus_totals_def zeroTotals_def)

lemma plus_totals_assoc: "plus_totals (plus_totals a b) c = plus_totals a (plus_totals b c)"
  by (simp add: plus_totals_def)

lemma nonneg_plus: "nonneg_totals a \<Longrightarrow> nonneg_totals b \<Longrightarrow> nonneg_totals (plus_totals a b)"
  by (simp add: plus_totals_def nonneg_totals_def)

lemma nonneg_zero [simp]: "nonneg_totals zeroTotals"
  by (simp add: nonneg_totals_def zeroTotals_def)

lemma bind_locals_nonneg: "nonneg_locals (bind_locals item)"
  by (simp add: nonneg_locals_def bind_locals_def js_or_def)

text \<open>Each statement of the body only adds to the totals it is given.\<close>

lemma sales_step_plus: "sales_step l t = plus_totals t (sales_step l zeroTotals)"
  by (simp add: sales_step_def plus_totals_def zeroTotals_def)

lemma commissions_step_plus:
  "commissions_step l t = plus_totals t (commissions_step l zeroTotals)"
  by (simp add: commissions_step_def plus_totals_def zeroTotals_def)

lemma delivery_step_plus: "delivery_step l t = plus_totals t (delivery_step l zeroTotals)"
  by (simp add: delivery_step_def plus_totals_def zeroTotals_def)

lemma returns_step_plus: "returns_step l t = plus_totals t (returns_step l zeroTotals)"
  by (simp add: returns_step_def plus_totals_def zeroTotals_def)

lemma ads_step_plus: "ads_step l t = plus_totals t (ads_step l zeroTotals)"
  by (simp add: ads_step_def plus_totals_def zeroTotals_def)

lemma services_step_plus: "services_step l t = plus_totals t (services_step l zeroTotals)"
  by (simp add: services_step_def plus_totals_def zeroTotals_def)

lemma catch_all_step_plus: "catch_all_step l t = plus_totals t (catch_all_step l zeroTotals)"
  by (simp add: catch_all_step_def plus_totals_def zeroTotals_def)

text \<open>What it adds is never negative: an accrual is added only when positive, every other
  amount is an absolute value.\<close>

lemma sales_step_nonneg: "nonneg_locals l \<Longrightarrow> nonneg_totals (sales_step l zeroTotals)"
  by (simp add: sales_step_def nonneg_totals_def nonneg_locals_def zeroTotals_def)

lemma commissions_step_nonneg:
  "nonneg_locals l \<Longrightarrow> nonneg_totals (commissions_step l zeroTotals)"
  by (simp add: commissions_step_def nonneg_totals_def nonneg_locals_def zeroTotals_def)

lemma delivery_step_nonneg: "nonneg_locals l \<Longrightarrow> nonneg_totals (delivery_step l zeroTotals)"
  by (simp add: delivery_step_def nonneg_totals_def nonneg_locals_def zeroTotals_def)

lemma returns_step_nonneg: "nonneg_locals l \<Longrightarrow> nonneg_totals (returns_step l zeroTotals)"
  by (simp add: returns_step_def nonneg_totals_def nonneg_locals_def zeroTotals_def)

lemma ads_step_nonneg: "nonneg_locals l \<Longrightarrow> nonneg_totals (ads_step l zeroTotals)"
  by (simp add: ads_step_def nonneg_totals_def nonneg_locals_def zeroTotals_def)

lemma services_step_nonneg: "nonneg_locals l \<Longrightarrow> nonneg_totals (services_step l zeroTotals)"
  by (simp add: services_step_def nonneg_totals_def nonneg_locals_def zeroTotals_def)

lemma catch_all_step_nonneg:
  "nonneg_locals l \<Longrightarrow> nonneg_totals (catch_all_step l zeroTotals)"
  by (simp add: catch_all_step_def nonneg_totals_def nonneg_locals_def zeroTotals_def)

lemma forEach_item_steps_sum:
  "forEach_item t item = plus_totals t (steps_sum (bind_locals item))"
proof -
  define l where "l = bind_locals item"
  have "catch_all_step l (services_step l (ads_step l (returns_step l
          (delivery_step l (commissions_step l (sales_step l t))))))
        = plus_totals t (steps_sum l)"
    unfolding steps_sum_def
    apply (subst catch_all_step_plus)
    apply (subst services_step_plus)
    apply (subst ads_step_plus)
    apply (subst returns_step_plus)
    apply (subst delivery_step_plus)
    apply (subst commissions_step_plus)
    apply (subst sales_step_plus)
    apply (simp only: plus_totals_assoc)
    done
  then show ?thesis by (simp add: forEach_item_def l_def)
qed

lemma steps_sum_nonneg: "nonneg_locals l \<Longrightarrow> nonneg_totals (steps_sum l)"
  unfolding steps_sum_def
  by (intro nonneg_plus sales_step_nonneg commissions_step_nonneg delivery_step_nonneg
      returns_step_nonneg ads_step_nonneg services_step_nonneg catch_all_step_nonneg)

lemma contribution_steps_sum: "contribution item = steps_sum (bind_locals item)"
  by (simp add: contribution_def forEach_item_steps_sum)

lemma contribution_nonneg: "nonneg_totals (contribution item)"
  by (simp add: contribution_steps_sum steps_sum_nonneg bind_locals_nonneg)

lemma forEach_item_plus: "forEach_item t item = plus_totals t (contribution item)"
  by (simp add: contribution_steps_sum forEach_item_steps_sum)

lemma foldl_nonneg: "nonneg_totals t \<Longrightarrow> nonneg_totals (foldl forEach_item t xs)"
proof (induction xs arbitrary: t)
  case Nil
  then show ?case by simp
next
  case (Cons x xs)
  have "nonneg_totals (forEach_item t x)"
    by (subst forEach_item_plus) (rule nonneg_plus [OF Cons.prems contribution_nonneg])
  then show ?case by (simp add: Cons.IH)
qed

lemma categorize_nonneg: "nonneg_totals (categorize xs)"
  by (simp add: categorize_def foldl_nonneg)

lemma demo_nonneg: "nonneg_totals t \<Longrightarrow> nonneg_totals (demo_substitution t)"
  by (simp add: demo_substitution_def nonneg_totals_def)

text \<open>Each of the first five statements changes its own bucket only, by what the rule of
  the bucket gives for the row; the two statements for services leave the five alone.\<close>

lemma sales_step_fields:
  "sales_step (bind_locals item) zeroTotals = zeroTotals\<lparr>totalSales := rule_amount K_sales item\<rparr>"
  by (simp add: sales_step_def bind_locals_def zeroTotals_def rule_defs split: option.splits)

lemma commissions_step_fields:
  "commissions_step (bind_locals item) zeroTotals
     = zeroTotals\<lparr>totalCommissions := rule_amount K_commissions item\<rparr>"
  by (simp add: commissions_step_def bind_locals_def zeroTotals_def rule_defs
      split: option.splits)

lemma delivery_step_fields:
  "delivery_step (bind_locals item) zeroTotals
     = zeroTotals\<lparr>totalDelivery := rule_amount K_delivery item\<rparr>"
  by (simp add: delivery_step_def bind_locals_def zeroTotals_def rule_defs
      split: option.splits)

lemma returns_step_fields:
  "returns_step (bind_locals item) zeroTotals
     = zeroTotals\<lparr>totalReturns := rule_amount K_returns item\<rparr>"
  by (simp add: returns_step_def bind_locals_def zeroTotals_def rule_defs
      split: option.splits)

lemma ads_step_fields:
  "ads_step (bind_locals item) zeroTotals = zeroTotals\<lparr>totalAds := rule_amount K_ads item\<rparr>"
  by (simp add: ads_step_def bind_locals_def zeroTotals_def rule_defs split: option.splits)

lemma services_step_fields:
  "\<exists>v. services_step l zeroTotals = zeroTotals\<lparr>totalServices := v\<rparr>"
  by (simp add: services_step_def zeroTotals_def)

lemma catch_all_step_fields:
  "\<exists>v. catch_all_step l zeroTotals = zeroTotals\<lparr>totalServices := v\<rparr>"
  by (simp add: catch_all_step_def zeroTotals_def)

lemma contribution_fields:
  "totalSales (contribution item) = rule_amount K_sales item
   \<and> totalCommissions (contribution item) = rule_amount K_commissions item
   \<and> totalDelivery (contribution item) = rule_amount K_delivery item
   \<and> totalReturns (contribution item) = rule_amount K_returns item
   \<and> totalAds (contribution item) = rule_amount K_ads item"
proof -
  obtain v w
    where sv: "services_step (bind_locals item) zeroTotals = zeroTotals\<lparr>totalServices := v\<rparr>"
      and ca: "catch_all_step (bind_locals item) zeroTotals = zeroTotals\<lparr>totalServices := w\<rparr>"
    using services_step_fields catch_all_step_fields by blast
  show ?thesis
    unfolding contribution_steps_sum steps_sum_def sales_step_fields commissions_step_fields
      delivery_step_fields returns_step_fields ads_step_fields sv ca
    by (simp add: plus_totals_def zeroTotals_def)
qed

lemma counted_in_five:
  "filter (\<lambda>k. k \<noteq> K_services) (counted_in item)
     = filter (\<lambda>k. rule_amount k item \<noteq> 0)
         [K_sales, K_commissions, K_delivery, K_returns, K_ads]"
  by (simp add: counted_in_def Let_def contribution_fields)

text \<open>
  C1 (as amended). The rules of the buckets sales, commissions, delivery, returns and ads
  are separate statements, not one chain. A row adds to each of these five buckets exactly
  what the rule of that bucket gives for it, whatever the other rules do, and so it is
  counted in every one of the five whose rule gives an amount: in none, in one or in
  several. What a row adds does not depend on the totals so far, and no bucket, services
  included, ever decreases.
\<close>

theorem each_row_adds_per_bucket:
  "forEach_item t item = plus_totals t (contribution item)
   \<and> totalSales (contribution item) = rule_amount K_sales item
   \<and> totalCommissions (contribution item) = rule_amount K_commissions item
   \<and> totalDelivery (contribution item) = rule_amount K_delivery item
   \<and> totalReturns (contribution item) = rule_amount K_returns item
   \<and> totalAds (contribution item) = rule_amount K_ads item
   \<and> filter (\<lambda>k. k \<noteq> K_services) (counted_in item)
       = filter (\<lambda>k. rule_amount k item \<noteq> 0)
           [K_sales, K_commissions, K_delivery, K_returns, K_ads]
   \<and> nonneg_totals (contribution item)"
  using contribution_fields [of item] forEach_item_plus [of t item] counted_in_five [of item]
    contribution_nonneg [of item]
  by blast

text \<open>
  C1 as stated fails: a row with a sale accrual of 1000 and a commission of -150 is counted
  in two buckets, sales and commissions.
\<close>

theorem row_counted_in_two_buckets:
  "counted_in sale_with_commission = [K_sales, K_commissions]"
  by (simp add: counted_in_def contribution_def sale_with_commission_def eval_defs)

text \<open>
  C10. Whatever the rows, the six totals of the loop are non-negative, and the summary of
  tier 3 has non-negative buckets, income and expenses, and a net profit of at most the
  income.
\<close>

theorem tier3_summary_nonneg:
  "nonneg_totals (categorize xs)
   \<and> 0 \<le> sales (summary (tier3 xs)) \<and> 0 \<le> commissions (summary (tier3 xs))
   \<and> 0 \<le> delivery (summary (tier3 xs)) \<and> 0 \<le> returns (summary (tier3 xs))
   \<and> 0 \<le> ads (summary (tier3 xs)) \<and> 0 \<le> services (summary (tier3 xs))
   \<and> 0 \<le> totalIncome (summary (tier3 xs)) \<and> 0 \<le> totalExpenses (summary (tier3 xs))
   \<and> netProfit (summary (tier3 xs)) \<le> totalIncome (summary (tier3 xs))"
proof -
  have "nonneg_totals (demo_substitution (categorize xs))"
    by (rule demo_nonneg [OF categorize_nonneg])
  then have "0 \<le> sales (summary (tier3 xs)) \<and> 0 \<le> commissions (summary (tier3 xs))
   \<and> 0 \<le> delivery (summary (tier3 xs)) \<and> 0 \<le> returns (summary (tier3 xs))
   \<and> 0 \<le> ads (summary (tier3 xs)) \<and> 0 \<le> services (summary (tier3 xs))
   \<and> 0 \<le> totalIncome (summary (tier3 xs)) \<and> 0 \<le> totalExpenses (summary (tier3 xs))
   \<and> netProfit (summary (tier3 xs)) \<le> totalIncome (summary (tier3 xs))"
    by (simp add: tier3_def tier3_summary_def nonneg_totals_def Let_def)
  with categorize_nonneg [of xs] show ?thesis by blast
qed

lemma tier3_totals_nonneg: "nonneg_totals (demo_substitution (categorize xs))"
  by (rule demo_nonneg [OF categorize_nonneg])

section \<open>The worked example and the keyword rules\<close>

lemma categorize_example:
  "categorize example_rows =
     \<lparr>totalSales = 1000, totalCommissions = 150, totalDelivery = 80, totalReturns = 0,
      totalAds = 0, totalServices = 0\<rparr>"
  by (simp add: categorize_def example_rows_def eval_defs)

text \<open>
  C5. The three example rows give the summary with sales 1000, commissions 150, delivery 80,
  income 1000, expenses 230 and net profit 770, and the category list sales, commissions,
  delivery with the amounts 1000, 150, 80 and the percentages 10000/123, 500/41 and 800/123,
  which round to 81.3, 12.2 and 6.5.
\<close>

theorem tier3_example:
  "summary (tier3 example_rows) =
     \<lparr>sales = 1000, commissions = 150, delivery = 80, returns = 0, ads = 0, services = 0,
      totalIncome = 1000, totalExpenses = 230, netProfit = 770\<rparr>
   \<and> map category (categories (tier3 example_rows))
       = [label K_sales, label K_commissions, label K_delivery]
   \<and> map amount (categories (tier3 example_rows)) = [1000, 150, 80]
   \<and> map percentage (categories (tier3 example_rows)) = [10000 / 123, 500 / 41, 800 / 123]
   \<and> \<bar>10000 / 123 - 81.3\<bar> < (0.05 :: real) \<and> \<bar>500 / 41 - 12.2\<bar> < (0.05 :: real)
   \<and> \<bar>800 / 123 - 6.5\<bar> < (0.05 :: real)"
  by (simp add: tier3_def categorize_example demo_substitution_def tier3_summary_def cat_defs
      sort_by_amount_desc_def label_def)

text \<open>The services rule leaves out a row whose type has one of the two delivery words it
  tests.\<close>

lemma services_step_excluded:
  "js_includes (operationType l) kw_dostavk \<or> js_includes (operationType l) (utf16 ''delivery'')
   \<Longrightarrow> services_step l t = t"
  by (auto simp: services_step_def)

text \<open>
  C4, at a row the code counts otherwise. The type "Shipping service" has a services word
  and the delivery word "shipping"; the row has the amount 50. The services rule fires all
  the same and adds 50, since it tests only two of the four delivery words; the delivery
  rule adds 50 to delivery, and the catch-all adds another 50 to services.
\<close>

theorem shipping_service_counted_as_service:
  "js_includes (operationType (bind_locals shipping_service)) (utf16 ''service'')
   \<and> js_includes (operationType (bind_locals shipping_service)) (utf16 ''shipping'')
   \<and> services_step (bind_locals shipping_service) zeroTotals
       = zeroTotals\<lparr>totalServices := 50\<rparr>
   \<and> contribution shipping_service = zeroTotals\<lparr>totalDelivery := 50, totalServices := 100\<rparr>"
  by (simp add: shipping_service_def contribution_def eval_defs)

section \<open>The demonstration data\<close>

text \<open>
  C2 (as amended). When the six totals of the rows are all zero, as they are for an empty
  window, tier 3 returns the fixed demonstration summary and a list of all six categories.
\<close>

theorem all_zero_totals_give_demo_data:
  "categorize xs = zeroTotals \<Longrightarrow>
   summary (tier3 xs) = demoSummary
   \<and> map category (categories (tier3 xs))
       = [label K_sales, label K_commissions, label K_delivery, label K_services,
          label K_ads, label K_returns]
   \<and> map amount (categories (tier3 xs)) = [10000, 1500, 800, 500, 300, 200]
   \<and> map percentage (categories (tier3 xs))
       = [10000 / 133, 1500 / 133, 800 / 133, 500 / 133, 300 / 133, 200 / 133]"
  by (simp add: tier3_def zeroTotals_def demo_substitution_def tier3_summary_def cat_defs
      sort_by_amount_desc_def label_def demoSummary_def)

theorem all_zero_totals_give_demo_data_witness:
  "categorize [] = zeroTotals \<and> summary (tier3 []) = demoSummary
   \<and> map amount (categories (tier3 [])) = [10000, 1500, 800, 500, 300, 200]"
proof -
  have h: "categorize [] = zeroTotals" by (simp add: categorize_def)
  from all_zero_totals_give_demo_data [OF h] h show ?thesis by simp
qed

text \<open>C2 as stated fails: with no row at all the summary is not zero and the list not
  empty.\<close>

theorem empty_window_not_all_zero:
  "sales (summary (tier3 [])) = 10000 \<and> summary (tier3 []) \<noteq> zeroSummary
   \<and> length (categories (tier3 [])) = 6"
  by (simp add: tier3_def categorize_def zeroTotals_def demo_substitution_def
      tier3_summary_def cat_defs sort_by_amount_desc_def zeroSummary_def)

section \<open>The category list\<close>

lemma push_category_key:
  "k \<in> set category_keys \<Longrightarrow>
   push_category (totalIncome s + totalExpenses s) cs (k, bucket s k)
     = cs @ (if bucket s k \<noteq> 0 then [entry_for s k] else [])"
  by (auto simp: category_keys_def push_category_def CATEGORY_COLORS_def CATEGORY_LABELS_def
      entry_for_def label_def bucket_def Let_def)

lemma push_category_other: "CATEGORY_COLORS k = None \<Longrightarrow> push_category tot cs (k, v) = cs"
  by (simp add: push_category_def)

lemma foldl_push_keys:
  "set ks \<subseteq> set category_keys \<Longrightarrow>
   foldl (push_category (totalIncome s + totalExpenses s)) cs (map (\<lambda>k. (k, bucket s k)) ks)
     = cs @ map (entry_for s) (filter (\<lambda>k. bucket s k \<noteq> 0) ks)"
proof (induction ks arbitrary: cs)
  case Nil
  then show ?case by simp
next
  case (Cons k ks)
  then have k: "k \<in> set category_keys" and ks: "set ks \<subseteq> set category_keys"
    by auto
  show ?case by (simp add: push_category_key [OF k] Cons.IH [OF ks])
qed

lemma Object_entries_split:
  "Object_entries s =
     map (\<lambda>k. (k, bucket s k)) category_keys
     @ [(K_totalIncome, totalIncome s), (K_totalExpenses, totalExpenses s),
        (K_netProfit, netProfit s)]"
  by (simp add: Object_entries_def category_keys_def bucket_def)

lemma build_categories_eq:
  "build_categories s = map (entry_for s) (filter (\<lambda>k. bucket s k \<noteq> 0) category_keys)"
  by (simp add: build_categories_def Object_entries_split foldl_push_keys push_category_other
      CATEGORY_COLORS_def)

lemma categories_tier1:
  "categories (tier1 d) = sort_by_amount_desc (build_categories (summary (tier1 d)))"
  by (simp add: tier1_def Let_def)

lemma categories_tier3:
  "categories (tier3 xs) = sort_by_amount_desc (build_categories (summary (tier3 xs)))"
  by (simp add: tier3_def Let_def)

subsection \<open>In tier 3 the entries are those of the positive buckets\<close>

lemma tier3_bucket_nonneg:
  "k \<in> set category_keys \<Longrightarrow> 0 \<le> bucket (summary (tier3 xs)) k"
  using tier3_totals_nonneg [of xs]
  by (auto simp: category_keys_def bucket_def tier3_def tier3_summary_def nonneg_totals_def
      Let_def)

lemma tier3_total_ge_bucket:
  "k \<in> set category_keys \<Longrightarrow>
   bucket (summary (tier3 xs)) k
     \<le> totalIncome (summary (tier3 xs)) + totalExpenses (summary (tier3 xs))"
  using tier3_totals_nonneg [of xs]
  by (auto simp: category_keys_def bucket_def tier3_def tier3_summary_def nonneg_totals_def
      Let_def)

lemma tier3_entry_for:
  assumes "k \<in> set category_keys" and "bucket (summary (tier3 xs)) k \<noteq> 0"
  shows "entry_for (summary (tier3 xs)) k = entry_spec (summary (tier3 xs)) k"
proof -
  have pos: "0 < bucket (summary (tier3 xs)) k"
    using tier3_bucket_nonneg [OF assms(1), of xs] assms(2) by simp
  with tier3_total_ge_bucket [OF assms(1), of xs]
  have "0 < totalIncome (summary (tier3 xs)) + totalExpenses (summary (tier3 xs))"
    by simp
  with pos show ?thesis by (simp add: entry_for_def entry_spec_def)
qed

lemma tier3_build_categories:
  "build_categories (summary (tier3 xs))
   = map (entry_spec (summary (tier3 xs)))
       (filter (\<lambda>k. 0 < bucket (summary (tier3 xs)) k) category_keys)"
proof -
  let ?s = "summary (tier3 xs)"
  have "filter (\<lambda>k. bucket ?s k \<noteq> 0) category_keys = filter (\<lambda>k. 0 < bucket ?s k) category_keys"
    by (rule filter_cong [OF refl]) (use tier3_bucket_nonneg [of _ xs] in force)
  moreover have "map (entry_for ?s) (filter (\<lambda>k. bucket ?s k \<noteq> 0) category_keys)
      = map (entry_spec ?s) (filter (\<lambda>k. bucket ?s k \<noteq> 0) category_keys)"
    by (rule map_cong [OF refl]) (simp add: tier3_entry_for)
  ultimately show ?thesis by (simp add: build_categories_eq)
qed

text \<open>
  C6 (as amended). The list of tier 1 has one entry for each of the six buckets that is not
  zero, a negative one too: its amount is the bucket for sales and the absolute value for the
  other five, its percentage \<open>amount / (totalIncome + totalExpenses) * 100\<close> when that
  sum is positive and 0 otherwise. The list of tier 3, where no bucket is negative, has one
  entry for each bucket greater than 0, with the bucket as amount and
  \<open>amount / (totalIncome + totalExpenses) * 100\<close> as percentage.
\<close>

theorem category_entries_for_nonzero_buckets:
  "mset (categories (tier1 d))
     = mset (map (entry_for (summary (tier1 d)))
               (filter (\<lambda>k. bucket (summary (tier1 d)) k \<noteq> 0) category_keys))
   \<and> mset (categories (tier3 xs))
     = mset (map (entry_spec (summary (tier3 xs)))
               (filter (\<lambda>k. 0 < bucket (summary (tier3 xs)) k) category_keys))"
  by (simp only: categories_tier1 categories_tier3 sort_by_amount_desc_def mset_sort
      build_categories_eq [of "summary (tier1 d)"] tier3_build_categories simp_thms)

text \<open>
  C6 as stated fails in tier 1: for a view row with revenue 100 and commission -150 the
  commissions bucket is -150 and has an entry all the same, with amount 150; the sum of
  income and expenses is -50, not 0, and both percentages are 0.
\<close>

theorem negative_bucket_gets_entry:
  "commissions (summary (tier1 negative_commission_view)) = - 150
   \<and> totalIncome (summary (tier1 negative_commission_view))
       + totalExpenses (summary (tier1 negative_commission_view)) = - 50
   \<and> categories (tier1 negative_commission_view)
       = [\<lparr>category = label K_commissions, amount = 150, percentage = 0,
            color = ''#ef4444''\<rparr>,
          \<lparr>category = label K_sales, amount = 100, percentage = 0, color = ''#10b981''\<rparr>]"
  by (simp add: negative_commission_view_def tier1_def tier1_summary_def reduce_sum_def
      toNumber_def cat_defs sort_by_amount_desc_def label_def fl64_def)

subsection \<open>The order of the list\<close>

text \<open>Insertion by key keeps the order the list had among equal keys.\<close>

lemma insort_key_lex:
  fixes f :: "'a \<Rightarrow> real"
  assumes "sorted_wrt (lex_rel f R) ys" and "\<forall>y\<in>set ys. R x y"
  shows "sorted_wrt (lex_rel f R) (insort_key f x ys)"
  using assms
proof (induction ys)
  case Nil
  then show ?case by simp
next
  case (Cons y ys)
  show ?case
  proof (cases "f x \<le> f y")
    case True
    have "lex_rel f R x z" if "z \<in> set (y # ys)" for z
    proof -
      have "f y \<le> f z"
        using that Cons.prems(1) by (auto simp: lex_rel_def)
      with True have "f x \<le> f z" by simp
      moreover have "R x z"
        using that Cons.prems(2) by auto
      ultimately show ?thesis by (auto simp: lex_rel_def)
    qed
    with True Cons.prems(1) show ?thesis by simp
  next
    case False
    then have "lex_rel f R y x" by (simp add: lex_rel_def)
    moreover have "sorted_wrt (lex_rel f R) (insort_key f x ys)"
      using Cons by simp
    ultimately show ?thesis
      using False Cons.prems(1) by (auto simp: set_insort_key)
  qed
qed

lemma sort_key_lex:
  fixes f :: "'a \<Rightarrow> real"
  shows "sorted_wrt R xs \<Longrightarrow> sorted_wrt (lex_rel f R) (sort_key f xs)"
proof (induction xs)
  case Nil
  then show ?case by simp
next
  case (Cons x xs)
  then show ?case by (simp add: insort_key_lex)
qed

lemma category_keys_ranked:
  "sorted_wrt (\<lambda>k k'. enum_rank (label k) < enum_rank (label k')) category_keys"
  by (simp add: category_keys_def enum_rank_def label_def CATEGORY_LABELS_def)

lemma build_categories_enum_order:
  "sorted_wrt (\<lambda>a b. enum_rank (category a) < enum_rank (category b)) (build_categories s)"
proof -
  have "sorted_wrt (\<lambda>k k'. enum_rank (label k) < enum_rank (label k'))
          (filter (\<lambda>k. bucket s k \<noteq> 0) category_keys)"
    by (rule sorted_wrt_filter [OF category_keys_ranked])
  then show ?thesis
    by (simp add: build_categories_eq sorted_wrt_map entry_for_def)
qed

lemma sorted_categories:
  "sorted_wrt amount_then_enum (sort_by_amount_desc (build_categories s))"
proof -
  let ?R = "\<lambda>a b. enum_rank (category a) < enum_rank (category b)"
  have "sorted_wrt (lex_rel (\<lambda>c. - amount c) ?R) (sort_by_amount_desc (build_categories s))"
    unfolding sort_by_amount_desc_def by (rule sort_key_lex [OF build_categories_enum_order])
  moreover have "lex_rel (\<lambda>c. - amount c) ?R = amount_then_enum"
    by (auto simp: lex_rel_def amount_then_enum_def fun_eq_iff)
  ultimately show ?thesis by simp
qed

section \<open>The tier chain\<close>

lemma queryFn_cases:
  "queryFn b = (calls, Inr r) \<Longrightarrow>
     (calls = [Tier1] \<and> r = tier1 (data (dashboard_summary b)))
   \<or> (calls = [Tier1, Tier2] \<and> r = tier2 (data (get_finance_summary b)))
   \<or> (calls = [Tier1, Tier2, Tier3]
       \<and> r = tier3 (rows_or_empty (data (vw_transaction_details b))))"
  by (auto simp: queryFn_def tier2_attempt_def tier3_attempt_def
      split: option.splits prod.splits)

lemma view_backend_result:
  "queryFn view_backend = ([Tier1], Inr (tier1 (data (dashboard_summary view_backend))))"
  by (simp add: queryFn_def backend_defs)

lemma sales_only_result:
  "queryFn sales_only_rpc =
     ([Tier1, Tier2], Inr (tier2 (data (get_finance_summary sales_only_rpc))))"
  by (simp add: queryFn_def tier2_attempt_def backend_defs)

text \<open>
  C7. Whichever tier answers, the category list returned is in descending order of amount,
  and entries of equal amount stand in the enumeration order sales, commissions, delivery,
  returns, ads, services.
\<close>

theorem categories_sorted_by_amount_then_enumeration:
  "queryFn b = (calls, Inr r) \<Longrightarrow> sorted_wrt amount_then_enum (categories r)"
  by (auto simp: tier1_def tier2_def tier3_def Let_def sorted_categories
      dest!: queryFn_cases)

theorem categories_sorted_by_amount_then_enumeration_witness:
  "queryFn view_backend = ([Tier1], Inr (tier1 (data (dashboard_summary view_backend))))
   \<and> sorted_wrt amount_then_enum (categories (tier1 (data (dashboard_summary view_backend))))
   \<and> map amount (categories (tier1 (data (dashboard_summary view_backend))))
       = [100, 100, 35, 15]
   \<and> map category (categories (tier1 (data (dashboard_summary view_backend))))
       = [label K_sales, label K_commissions, label K_services, label K_delivery]"
proof -
  have "map amount (categories (tier1 (data (dashboard_summary view_backend))))
          = [100, 100, 35, 15]
        \<and> map category (categories (tier1 (data (dashboard_summary view_backend))))
          = [label K_sales, label K_commissions, label K_services, label K_delivery]"
    by (simp add: backend_defs tier1_def tier1_summary_def reduce_sum_def toNumber_def
        cat_defs sort_by_amount_desc_def label_def fl_defs)
  with categories_sorted_by_amount_then_enumeration [OF view_backend_result]
    view_backend_result
  show ?thesis by blast
qed

lemma tier3_invariant: "summary_invariant (summary (tier3 xs))"
  by (simp add: summary_invariant_def tier3_def tier3_summary_def Let_def)

lemma tier1_fields:
  "totalIncome (summary (tier1 d)) = sales (summary (tier1 d))
   \<and> totalExpenses (summary (tier1 d))
       = commissions (summary (tier1 d)) + reduce_sum total_service_costs d
   \<and> delivery (summary (tier1 d)) = fl64 (reduce_sum total_service_costs d * double_0_3)
   \<and> services (summary (tier1 d)) = fl64 (reduce_sum total_service_costs d * double_0_7)
   \<and> returns (summary (tier1 d)) = 0 \<and> ads (summary (tier1 d)) = 0"
  by (simp add: tier1_def tier1_summary_def Let_def)

lemma tier2_fields: "summary (tier2 d) = rpc_fields (first_row d)"
  by (simp add: tier2_def rpc_fields_def Let_def)

lemma rpc_fields_invariant:
  "summary_invariant (rpc_fields row)
     = (toNumber (total_income row) = toNumber (total_sales row)
        \<and> toNumber (total_expenses row)
            = toNumber (total_commissions row) + toNumber (total_delivery row)
              + toNumber (total_returns row) + toNumber (total_ads row)
              + toNumber (total_services row))"
  by (simp add: summary_invariant_def rpc_fields_def)

lemma rounding_view_result:
  "queryFn rounding_view = ([Tier1], Inr (tier1 (data (dashboard_summary rounding_view))))"
  by (simp add: queryFn_def backend_defs)

lemma raw_backend_result:
  "queryFn raw_backend
     = ([Tier1, Tier2, Tier3],
        Inr (tier3 (rows_or_empty (data (vw_transaction_details raw_backend)))))"
  by (simp add: queryFn_def tier2_attempt_def tier3_attempt_def backend_defs)

text \<open>
  C3 (as amended). A summary of tier 3 has \<open>totalIncome = sales\<close> and
  \<open>totalExpenses = commissions + delivery + returns + ads + services\<close>. A summary of tier 1
  has \<open>totalIncome = sales\<close>; its expenses are the commissions plus the service costs of the
  view, its returns and ads are 0, and its delivery and services are the products of the
  service costs by 0.3 and by 0.7 as doubles, which need not add up to the service costs.
  A summary of tier 2 is the nine fields of the row of the remote procedure as reported, and
  has the two equations exactly when that row has them.
\<close>

theorem summary_invariant_by_tier:
  assumes "queryFn b = (calls, Inr r)"
  shows "(last calls = Tier1 \<longrightarrow>
            totalIncome (summary r) = sales (summary r)
          \<and> totalExpenses (summary r)
              = commissions (summary r)
                + reduce_sum total_service_costs (data (dashboard_summary b))
          \<and> delivery (summary r)
              = fl64 (reduce_sum total_service_costs (data (dashboard_summary b)) * double_0_3)
          \<and> services (summary r)
              = fl64 (reduce_sum total_service_costs (data (dashboard_summary b)) * double_0_7)
          \<and> returns (summary r) = 0 \<and> ads (summary r) = 0)
       \<and> (last calls = Tier2 \<longrightarrow>
            summary r = rpc_fields (first_row (data (get_finance_summary b)))
          \<and> summary_invariant (summary r)
              = (toNumber (total_income (first_row (data (get_finance_summary b))))
                   = toNumber (total_sales (first_row (data (get_finance_summary b))))
                 \<and> toNumber (total_expenses (first_row (data (get_finance_summary b))))
                   = toNumber (total_commissions (first_row (data (get_finance_summary b))))
                     + toNumber (total_delivery (first_row (data (get_finance_summary b))))
                     + toNumber (total_returns (first_row (data (get_finance_summary b))))
                     + toNumber (total_ads (first_row (data (get_finance_summary b))))
                     + toNumber (total_services (first_row (data (get_finance_summary b))))))
       \<and> (last calls = Tier3 \<longrightarrow> summary_invariant (summary r))"
proof -
  from queryFn_cases [OF assms] consider
    (t1) "calls = [Tier1]" "r = tier1 (data (dashboard_summary b))"
    | (t2) "calls = [Tier1, Tier2]" "r = tier2 (data (get_finance_summary b))"
    | (t3) "calls = [Tier1, Tier2, Tier3]"
      "r = tier3 (rows_or_empty (data (vw_transaction_details b)))"
    by blast
  then show ?thesis
  proof cases
    case t1
    with tier1_fields [of "data (dashboard_summary b)"] show ?thesis by simp
  next
    case t2
    then show ?thesis
      by (simp add: tier2_fields rpc_fields_invariant [symmetric])
  next
    case t3
    then show ?thesis by (simp add: tier3_invariant)
  qed
qed

theorem summary_invariant_by_tier_witness:
  "queryFn view_backend = ([Tier1], Inr (tier1 (data (dashboard_summary view_backend))))
   \<and> last [Tier1] = Tier1
   \<and> totalIncome (summary (tier1 (data (dashboard_summary view_backend)))) = 100
   \<and> sales (summary (tier1 (data (dashboard_summary view_backend)))) = 100
   \<and> totalExpenses (summary (tier1 (data (dashboard_summary view_backend)))) = 150
   \<and> queryFn sales_only_rpc
       = ([Tier1, Tier2], Inr (tier2 (data (get_finance_summary sales_only_rpc))))
   \<and> last [Tier1, Tier2] = Tier2
   \<and> sales (summary (tier2 (data (get_finance_summary sales_only_rpc)))) = 100
   \<and> totalIncome (summary (tier2 (data (get_finance_summary sales_only_rpc)))) = 0
   \<and> queryFn raw_backend
       = ([Tier1, Tier2, Tier3],
          Inr (tier3 (rows_or_empty (data (vw_transaction_details raw_backend)))))
   \<and> last [Tier1, Tier2, Tier3] = Tier3
   \<and> summary_invariant
         (summary (tier3 (rows_or_empty (data (vw_transaction_details raw_backend)))))"
proof -
  have "commissions (summary (tier1 (data (dashboard_summary view_backend)))) = 100"
    and "sales (summary (tier1 (data (dashboard_summary view_backend)))) = 100"
    by (simp_all add: backend_defs tier1_def tier1_summary_def reduce_sum_def toNumber_def
        Let_def)
  with summary_invariant_by_tier [OF view_backend_result]
    summary_invariant_by_tier [OF sales_only_result]
    summary_invariant_by_tier [OF raw_backend_result]
    view_backend_result sales_only_result raw_backend_result
  show ?thesis
    by (simp add: backend_defs first_row_def emptyRpcRow_def toNumber_def reduce_sum_def
        rpc_fields_def)
qed

text \<open>
  C3 as stated fails in tier 2 and in tier 1. When the view is missing and the procedure
  answers a row with \<^verbatim>\<open>total_sales\<close> 100 and nothing else, the summary returned has
  sales 100 and income 0. When the view answers commission 1 and service costs 3, delivery
  is the double printed \<^verbatim>\<open>0.8999999999999999\<close> and services the double printed
  \<^verbatim>\<open>2.0999999999999996\<close>: the five buckets add up to \<^verbatim>\<open>3.9999999999999996\<close>, and the
  expenses are 4.
\<close>

theorem rpc_summary_breaks_invariant:
  "queryFn sales_only_rpc =
     ([Tier1, Tier2],
      Inr \<lparr>summary = \<lparr>sales = 100, commissions = 0, delivery = 0, returns = 0, ads = 0,
             services = 0, totalIncome = 0, totalExpenses = 0, netProfit = 0\<rparr>,
           categories = []\<rparr>)
   \<and> \<not> summary_invariant
         \<lparr>sales = 100, commissions = 0, delivery = 0, returns = 0, ads = 0, services = 0,
          totalIncome = 0, totalExpenses = 0, netProfit = 0\<rparr>
   \<and> queryFn rounding_view
       = ([Tier1], Inr (tier1 (data (dashboard_summary rounding_view))))
   \<and> summary (tier1 (data (dashboard_summary rounding_view)))
       = \<lparr>sales = 10, commissions = 1, delivery = 8106479329266892 / 2 ^ 53, returns = 0,
          ads = 0, services = 4728779608739020 / 2 ^ 51, totalIncome = 10,
          totalExpenses = 4, netProfit = 6\<rparr>
   \<and> (1 :: real) + 8106479329266892 / 2 ^ 53 + 0 + 0 + 4728779608739020 / 2 ^ 51
       = 4 - 1 / 2 ^ 51
   \<and> \<not> summary_invariant (summary (tier1 (data (dashboard_summary rounding_view))))"
  by (simp add: queryFn_def tier2_attempt_def backend_defs tier2_def first_row_def
      emptyRpcRow_def toNumber_def summary_invariant_def tier1_def tier1_summary_def
      reduce_sum_def fl_defs Let_def)

text \<open>
  C8. An answer of the view is the result, and nothing else is called. An error of the view
  is caught and the procedure is called: its answer alone is the result. An error of the
  procedure is caught too and the raw rows are fetched: the summary computed from them alone
  is the result, and an error of that fetch is thrown to the caller.
\<close>

theorem tier_chain_fallthrough:
  "(error (dashboard_summary b) = None \<longrightarrow>
      queryFn b = ([Tier1], Inr (tier1 (data (dashboard_summary b)))))
   \<and> (error (dashboard_summary b) \<noteq> None \<and> error (get_finance_summary b) = None \<longrightarrow>
      queryFn b = ([Tier1, Tier2], Inr (tier2 (data (get_finance_summary b)))))
   \<and> (error (dashboard_summary b) \<noteq> None \<and> error (get_finance_summary b) \<noteq> None
        \<and> error (vw_transaction_details b) = None \<longrightarrow>
      queryFn b = ([Tier1, Tier2, Tier3],
                   Inr (tier3 (rows_or_empty (data (vw_transaction_details b))))))
   \<and> (error (dashboard_summary b) \<noteq> None \<and> error (get_finance_summary b) \<noteq> None
        \<and> error (vw_transaction_details b) = Some e \<longrightarrow>
      queryFn b = ([Tier1, Tier2, Tier3], Inl e))"
  by (auto simp: queryFn_def tier2_attempt_def tier3_attempt_def split: option.splits)

theorem tier_chain_fallthrough_witness:
  "queryFn view_backend = ([Tier1], Inr (tier1 (data (dashboard_summary view_backend))))
   \<and> queryFn sales_only_rpc
       = ([Tier1, Tier2], Inr (tier2 (data (get_finance_summary sales_only_rpc))))
   \<and> queryFn raw_backend
       = ([Tier1, Tier2, Tier3], Inr (tier3 [emptyRecord\<lparr>accruals_for_sale := Some 1000\<rparr>]))
   \<and> queryFn dead_backend
       = ([Tier1, Tier2, Tier3], Inl (PostgrestError ''relation does not exist''))"
  using tier_chain_fallthrough [of view_backend] tier_chain_fallthrough [of sales_only_rpc]
    tier_chain_fallthrough [of raw_backend]
    tier_chain_fallthrough [of dead_backend "PostgrestError ''relation does not exist''"]
  by (simp add: backend_defs rows_or_empty_def)

section \<open>The breakdown rows\<close>

lemma gte_lte_dated: "r \<in> set (gte_lte f t rows) \<Longrightarrow> \<exists>d. operation_date_msk r = Some d"
  by (auto simp: gte_lte_def split: option.splits)

lemma order_desc_sorted:
  assumes "\<forall>r\<in>set rows. \<exists>d. operation_date_msk r = Some d"
  shows "sorted_wrt later_first (order_desc rows)"
proof -
  let ?key = "\<lambda>r. map_option (\<lambda>d. - int d) (operation_date_msk r)"
  have "sorted (map ?key (sort_key ?key rows))"
    by (rule sorted_sort_key)
  then have "sorted_wrt (\<lambda>r r'. ?key r \<le> ?key r') (order_desc rows)"
    by (simp add: order_desc_def sorted_map)
  moreover have "later_first r r'"
    if "r \<in> set (order_desc rows)" "r' \<in> set (order_desc rows)" "?key r \<le> ?key r'"
    for r r'
  proof -
    from that(1,2) have "r \<in> set rows" "r' \<in> set rows"
      by (simp_all add: order_desc_def)
    with assms obtain d d'
      where "operation_date_msk r = Some d" "operation_date_msk r' = Some d'"
      by blast
    with that(3) show ?thesis by (simp add: later_first_def)
  qed
  ultimately show ?thesis by (rule sorted_wrt_mono_rel [rotated])
qed

lemma selection_sorted: "sorted_wrt later_first (order_desc (gte_lte f t rows))"
  by (rule order_desc_sorted) (auto dest: gte_lte_dated)

lemma mset_order_desc: "mset (order_desc rows) = mset rows"
  by (simp add: order_desc_def)

lemma dates_desc:
  assumes "sorted_wrt later_first src"
    and "\<And>item. row_date_msk (g item)
           = (case operation_date_msk item of None \<Rightarrow> z | Some d \<Rightarrow> d)"
  shows "sorted_wrt (\<ge>) (map (\<lambda>item. row_date_msk (g item)) src)"
proof -
  have "sorted_wrt (\<lambda>r r'. row_date_msk (g r) \<ge> row_date_msk (g r')) src"
    by (rule sorted_wrt_mono_rel [OF _ assms(1)])
      (auto simp: later_first_def assms(2) split: option.splits)
  then show ?thesis by (simp add: sorted_wrt_map)
qed

lemma breakdown_row_date:
  "row_date_msk (breakdown_row today item)
     = (case operation_date_msk item of None \<Rightarrow> today | Some d \<Rightarrow> d)"
  by (simp add: breakdown_row_def)

lemma breakdown_row_transactions_date:
  "row_date_msk (breakdown_row_transactions item)
     = (case operation_date_msk item of None \<Rightarrow> 0 | Some d \<Rightarrow> d)"
  by (simp add: breakdown_row_transactions_def)

text \<open>
  C9 (as amended). Both copies of the hook return at most 100 rows, latest day first: the
  first hundred of the rows of the date range in descending order of day. In every row the
  net profit is the signed amount of the record. In the hook over the transaction view the
  services column is the absolute amount for every record, delivery or not; in the copy
  over the \<^verbatim>\<open>transactions\<close> table it is the absolute amount when the operation type does
  not include "delivery", and 0 when it does.
\<close>

theorem breakdown_projection:
  assumes "useFinanceBreakdown today dateFrom dateTo (Inr rows) = Inr out"
    and "useFinanceBreakdown_transactions dateFrom dateTo (Inr rows) = Inr out'"
  shows "length out \<le> 100 \<and> length out' \<le> 100
    \<and> sorted_wrt (\<ge>) (map row_date_msk out) \<and> sorted_wrt (\<ge>) (map row_date_msk out')
    \<and> (\<exists>src. mset src = mset (gte_lte dateFrom dateTo rows) \<and> sorted_wrt later_first src
          \<and> out = map (breakdown_row today) (take 100 src)
          \<and> out' = map breakdown_row_transactions (take 100 src))
    \<and> (\<forall>item. row_net_profit (breakdown_row today item) = toNumber (item_amount item)
          \<and> row_services (breakdown_row today item) = \<bar>toNumber (item_amount item)\<bar>
          \<and> row_net_profit (breakdown_row_transactions item) = toNumber (item_amount item)
          \<and> row_services (breakdown_row_transactions item)
              = (if delivery_tagged item then 0 else \<bar>toNumber (item_amount item)\<bar>))"
proof -
  define src where "src = order_desc (gte_lte dateFrom dateTo rows)"
  have out: "out = map (breakdown_row today) (take 100 src)"
    and out': "out' = map breakdown_row_transactions (take 100 src)"
    using assms
    by (simp_all add: useFinanceBreakdown_def useFinanceBreakdown_transactions_def limit_def
        src_def)
  have srt: "sorted_wrt later_first src"
    unfolding src_def by (rule selection_sorted)
  then have srt100: "sorted_wrt later_first (take 100 src)"
    by (rule sorted_wrt_take)
  have 1: "length out \<le> 100 \<and> length out' \<le> 100"
    by (simp add: out out')
  have 2: "sorted_wrt (\<ge>) (map row_date_msk out)"
    using dates_desc [OF srt100, of "breakdown_row today" today]
    by (simp add: out breakdown_row_date o_def)
  have 3: "sorted_wrt (\<ge>) (map row_date_msk out')"
    using dates_desc [OF srt100, of breakdown_row_transactions 0]
    by (simp add: out' breakdown_row_transactions_date o_def)
  have 4: "\<exists>src. mset src = mset (gte_lte dateFrom dateTo rows) \<and> sorted_wrt later_first src
          \<and> out = map (breakdown_row today) (take 100 src)
          \<and> out' = map breakdown_row_transactions (take 100 src)"
    using srt out out' by (intro exI [of _ src]) (simp add: src_def mset_order_desc)
  have 5: "\<forall>item. row_net_profit (breakdown_row today item) = toNumber (item_amount item)
          \<and> row_services (breakdown_row today item) = \<bar>toNumber (item_amount item)\<bar>
          \<and> row_net_profit (breakdown_row_transactions item) = toNumber (item_amount item)
          \<and> row_services (breakdown_row_transactions item)
              = (if delivery_tagged item then 0 else \<bar>toNumber (item_amount item)\<bar>)"
    by (simp add: breakdown_row_def breakdown_row_transactions_def)
  from 1 2 3 4 5 show ?thesis by blast
qed

lemmas row_defs =
  delivery_row_def other_row_def late_row_def emptyRecord_def breakdown_row_def
  breakdown_row_transactions_def toNumber_def delivery_tagged_def toLowerCase_def
  lowerUnit_def utf16_def

lemma month_view:
  "useFinanceBreakdown 30 1 31 (Inr [other_row, delivery_row, late_row])
     = Inr (map (breakdown_row 30) [delivery_row, other_row])"
  by (simp add: useFinanceBreakdown_def limit_def order_desc_def gte_lte_def delivery_row_def
      other_row_def late_row_def emptyRecord_def)

lemma month_transactions:
  "useFinanceBreakdown_transactions 1 31 (Inr [other_row, delivery_row, late_row])
     = Inr (map breakdown_row_transactions [delivery_row, other_row])"
  by (simp add: useFinanceBreakdown_transactions_def limit_def order_desc_def gte_lte_def
      delivery_row_def other_row_def late_row_def emptyRecord_def)

theorem breakdown_projection_witness:
  "useFinanceBreakdown 30 1 31 (Inr [other_row, delivery_row, late_row])
     = Inr (map (breakdown_row 30) [delivery_row, other_row])
   \<and> useFinanceBreakdown_transactions 1 31 (Inr [other_row, delivery_row, late_row])
     = Inr (map breakdown_row_transactions [delivery_row, other_row])
   \<and> map row_date_msk (map (breakdown_row 30) [delivery_row, other_row]) = [5, 3]
   \<and> map row_net_profit (map (breakdown_row 30) [delivery_row, other_row]) = [- 80, 40]
   \<and> map row_services (map (breakdown_row 30) [delivery_row, other_row]) = [80, 40]
   \<and> map row_services (map breakdown_row_transactions [delivery_row, other_row]) = [0, 40]"
  using breakdown_projection [OF month_view month_transactions] month_view month_transactions
  by (simp add: row_defs)

text \<open>
  C9 as stated fails for the hook over the transaction view: a delivery row of amount -80,
  whose type includes "delivery", is emitted with 80 in the services column as well as in
  the delivery column.
\<close>

theorem delivery_row_counted_as_service:
  "useFinanceBreakdown 30 1 31 (Inr [delivery_row])
     = Inr [\<lparr>row_date_msk = 5, row_posting_number = na, row_sales = 0, row_commissions = 0,
             row_delivery = 80, row_returns = 0, row_ads = 0, row_services = 80,
             row_net_profit = - 80, row_operation_type = Some (utf16 ''Delivery'')\<rparr>]
   \<and> delivery_tagged delivery_row"
  by (simp add: useFinanceBreakdown_def limit_def order_desc_def gte_lte_def row_defs)

end
